theory Spec2Isabelle
  imports Complex_Main
begin

section \<open>Python strings\<close>

text \<open>
  A Python \<open>str\<close> is modelled by the bytes of its UTF-8 encoding, as a \<^typ>\<open>string\<close>.
  The keywords of the ReAct wire format and the newline are ASCII, and an ASCII byte never
  occurs inside a multi-byte sequence, so \<open>startswith\<close> and \<open>split\<close> on them
  are the same on bytes as on code points. Only \<open>strip\<close> has to know the encoding: it removes
  the code points for which \<open>str.isspace\<close> holds, listed here by their UTF-8 encodings.
\<close>

definition whitespace :: "string list" where
  "whitespace =
     [[CHR 0x09], [CHR 0x0A], [CHR 0x0B], [CHR 0x0C], [CHR 0x0D],
      [CHR 0x1C], [CHR 0x1D], [CHR 0x1E], [CHR 0x1F], [CHR 0x20],
      [CHR 0xC2, CHR 0x85], [CHR 0xC2, CHR 0xA0],
      [CHR 0xE1, CHR 0x9A, CHR 0x80],
      [CHR 0xE2, CHR 0x80, CHR 0x80], [CHR 0xE2, CHR 0x80, CHR 0x81],
      [CHR 0xE2, CHR 0x80, CHR 0x82], [CHR 0xE2, CHR 0x80, CHR 0x83],
      [CHR 0xE2, CHR 0x80, CHR 0x84], [CHR 0xE2, CHR 0x80, CHR 0x85],
      [CHR 0xE2, CHR 0x80, CHR 0x86], [CHR 0xE2, CHR 0x80, CHR 0x87],
      [CHR 0xE2, CHR 0x80, CHR 0x88], [CHR 0xE2, CHR 0x80, CHR 0x89],
      [CHR 0xE2, CHR 0x80, CHR 0x8A],
      [CHR 0xE2, CHR 0x80, CHR 0xA8], [CHR 0xE2, CHR 0x80, CHR 0xA9],
      [CHR 0xE2, CHR 0x80, CHR 0xAF],
      [CHR 0xE2, CHR 0x81, CHR 0x9F],
      [CHR 0xE3, CHR 0x80, CHR 0x80]]"

definition startswith :: "string \<Rightarrow> string \<Rightarrow> bool" where
  "startswith p s \<longleftrightarrow> take (length p) s = p"

text \<open>\<open>strip_prefixes ws s\<close> removes leading occurrences of the sequences \<open>ws\<close> until none fits.\<close>

function strip_prefixes :: "string list \<Rightarrow> string \<Rightarrow> string" where
  "strip_prefixes ws s =
     (case filter (\<lambda>w. w \<noteq> [] \<and> startswith w s) ws of
        [] \<Rightarrow> s
      | w # _ \<Rightarrow> strip_prefixes ws (drop (length w) s))"
  by pat_completeness auto
termination
proof (relation "measure (\<lambda>(ws, s). length s)")
  show "wf (measure (\<lambda>(ws, s). length s))" by simp
next
  fix ws :: "string list" and s :: string and w rest
  assume "filter (\<lambda>w. w \<noteq> [] \<and> startswith w s) ws = w # rest"
  then have "w \<noteq> [] \<and> startswith w s"
    by (metis (mono_tags, lifting) filter_eq_Cons_iff)
  then have "0 < length w" and "length w \<le> length s"
    by (auto simp: startswith_def) (metis length_take min.cobounded1)
  then have "length s - length w < length s" by arith
  then show "((ws, drop (length w) s), (ws, s)) \<in> measure (\<lambda>(ws, s). length s)"
    by simp
qed

definition lstrip :: "string \<Rightarrow> string" where
  "lstrip s = strip_prefixes whitespace s"

definition rstrip :: "string \<Rightarrow> string" where
  "rstrip s = rev (strip_prefixes (map rev whitespace) (rev s))"

text \<open>\<open>str.strip()\<close> without arguments.\<close>

definition strip :: "string \<Rightarrow> string" where
  "strip s = rstrip (lstrip s)"

text \<open>\<open>s.split(d)\<close> for a separator of one character: one more piece than separators.\<close>

fun split_char :: "char \<Rightarrow> string \<Rightarrow> string list" where
  "split_char d [] = [[]]"
| "split_char d (c # cs) =
     (if c = d then [] # split_char d cs
      else (case split_char d cs of [] \<Rightarrow> [[c]] | l # ls \<Rightarrow> (c # l) # ls))"

text \<open>\<open>s.split(sep, 1)\<close> for a non-empty separator: cut at the first occurrence, if any.\<close>

fun split_once :: "string \<Rightarrow> string \<Rightarrow> string list" where
  "split_once sep [] = (if sep = [] then [[], []] else [[]])"
| "split_once sep (c # cs) =
     (if startswith sep (c # cs) then [[], drop (length sep) (c # cs)]
      else (case split_once sep cs of
              [a, b] \<Rightarrow> [c # a, b]
            | _ \<Rightarrow> [c # cs]))"

text \<open>\<open>sep.join(xs)\<close>.\<close>

fun join :: "string \<Rightarrow> string list \<Rightarrow> string" where
  "join sep [] = []"
| "join sep [x] = x"
| "join sep (x # y # ys) = x @ sep @ join sep (y # ys)"

section \<open>Python values\<close>

text \<open>
  The values \<open>json.loads\<close> can return. A float is kept as the decimal number its literal
  denotes (mantissa and power of ten) or as one of the three specials that Python's decoder
  accepts; a \<open>dict\<close> is the list of its items in insertion order.
\<close>

datatype pyfloat = Finite int int | PosInf | NegInf | NaN

datatype pyval =
    PNone
  | PBool bool
  | PInt int
  | PFloat pyfloat
  | PStr string
  | PList "pyval list"
  | PDict "(string \<times> pyval) list"

section \<open>The ReAct response parser (agents/backends/react.py)\<close>

text \<open>
  The exceptions that can leave \<open>ReActBackend.__parse\<close>: the bare \<open>FormatException\<close> of
  the module, the \<open>ValueError\<close> of the validation step with its message, the
  \<open>ValidationError\<close> of the pydantic model, and the \<open>IndexError\<close> of \<open>split(...)[1]\<close>.
\<close>

datatype error = FormatException | ValueError string | ValidationError | IndexError

text \<open>The \<open>results\<close> dictionary of \<open>__parse\<close>, one field per key.\<close>

record results =
  res_Thought :: "string option"
  res_Action :: "string option"
  res_Action_Input :: pyval
  res_Answer :: "string option"

text \<open>The pydantic model \<open>ReActResponse\<close>.\<close>

record ReActResponse =
  Thought :: string
  Action :: "string option"
  ActionInput :: "(string \<times> pyval) list option"
  Answer :: "string option"

definition init_results :: results where
  "init_results =
     \<lparr>res_Thought = None, res_Action = None, res_Action_Input = PNone, res_Answer = None\<rparr>"

text \<open>\<open>line.split(key, 1)[1]\<close>: the index fails on a list of one piece.\<close>

definition remainder :: "string \<Rightarrow> string \<Rightarrow> error + string" where
  "remainder key line =
     (case split_once key line of
        _ # b # _ \<Rightarrow> Inr b
      | _ \<Rightarrow> Inl IndexError)"

text \<open>
  The \<open>try\<close> block of the loop. \<open>loads\<close> stands for \<open>json.loads\<close>: \<open>None\<close> is a
  \<open>JSONDecodeError\<close>, which the block catches to keep the string. JSON \<open>null\<close> decodes to
  Python's \<open>None\<close>, the value the key had before.
\<close>

definition action_input :: "(string \<Rightarrow> pyval option) \<Rightarrow> string \<Rightarrow> pyval" where
  "action_input loads action_input_str =
     (case loads action_input_str of
        Some v \<Rightarrow> v
      | None \<Rightarrow> PStr action_input_str)"

text \<open>The \<open>while lines:\<close> loop.\<close>

fun scan :: "(string \<Rightarrow> pyval option) \<Rightarrow> string list \<Rightarrow> results \<Rightarrow> error + results" where
  "scan loads [] r = Inr r"
| "scan loads (line # lines) r =
     (if strip line = [] then scan loads lines r
      else if startswith ''Action:'' line then
        (case remainder ''Action:'' line of
           Inl e \<Rightarrow> Inl e
         | Inr a \<Rightarrow> scan loads lines (r\<lparr>res_Action := Some (strip a)\<rparr>))
      else if startswith ''Action Input:'' line then
        (case remainder ''Action Input:'' line of
           Inl e \<Rightarrow> Inl e
         | Inr a \<Rightarrow>
             scan loads lines (r\<lparr>res_Action_Input := action_input loads (strip a)\<rparr>))
      else if startswith ''Answer:'' line then
        (case remainder ''Answer:'' line of
           Inl e \<Rightarrow> Inl e
         | Inr a \<Rightarrow>
             Inr (r\<lparr>res_Answer := Some (strip a @ ''\<newline>'' @ join ''\<newline>'' lines)\<rparr>))
      else scan loads lines r)"

text \<open>
  \<open>ReActResponse(**results)\<close>: pydantic checks each field against its annotation.
  \<open>Thought: str\<close> is required; \<open>ActionInput: Optional[Dict[str, Any]]\<close> takes \<open>None\<close> or a
  \<open>dict\<close> (the keys of a decoded JSON object are strings) and rejects every other value
  (pydantic 2; a bare number or a non-empty string is rejected by pydantic 1 as well).
\<close>

definition validate :: "results \<Rightarrow> error + ReActResponse" where
  "validate r =
     (case res_Thought r of
        None \<Rightarrow> Inl ValidationError
      | Some t \<Rightarrow>
          (case res_Action_Input r of
             PNone \<Rightarrow>
               Inr \<lparr>Thought = t, Action = res_Action r, ActionInput = None,
                    Answer = res_Answer r\<rparr>
           | PDict kvs \<Rightarrow>
               Inr \<lparr>Thought = t, Action = res_Action r, ActionInput = Some kvs,
                    Answer = res_Answer r\<rparr>
           | _ \<Rightarrow> Inl ValidationError))"

text \<open>The statements of \<open>__parse\<close> after the loop.\<close>

definition finish :: "results \<Rightarrow> error + ReActResponse" where
  "finish r =
     (if res_Action r \<noteq> None \<and> res_Action_Input r = PNone
      then Inl (ValueError ''Action specified without Action Input'')
      else validate
             (if res_Action r \<noteq> None \<and> res_Answer r = None
              then r\<lparr>res_Answer := Some []\<rparr> else r))"

definition parse :: "(string \<Rightarrow> pyval option) \<Rightarrow> string \<Rightarrow> error + ReActResponse" where
  "parse loads text =
     (case split_char (CHR 0x0A) (strip text) of
        [] \<Rightarrow> Inl FormatException
      | first # lines \<Rightarrow>
          if startswith ''Thought:'' first then
            (case remainder ''Thought:'' first of
               Inl e \<Rightarrow> Inl e
             | Inr t \<Rightarrow>
                 (case scan loads lines (init_results\<lparr>res_Thought := Some (strip t)\<rparr>) of
                    Inl e \<Rightarrow> Inl e
                  | Inr r \<Rightarrow> finish r))
          else Inl FormatException)"

definition parse_for_result :: "(string \<Rightarrow> pyval option) \<Rightarrow> string \<Rightarrow> error + string option" where
  "parse_for_result loads text = map_sum id Answer (parse loads text)"

text \<open>\<open>not response.Action\<close> holds for \<open>None\<close> and for the empty string.\<close>

definition parse_for_tool_calls ::
  "(string \<Rightarrow> pyval option) \<Rightarrow> string \<Rightarrow>
     error + (string \<times> (string \<times> pyval) list option) list" where
  "parse_for_tool_calls loads text =
     (case parse loads text of
        Inl e \<Rightarrow> Inl e
      | Inr response \<Rightarrow>
          (case Action response of
             None \<Rightarrow> Inr []
           | Some a \<Rightarrow> if a = [] then Inr [] else Inr [(a, ActionInput response)]))"

subsection \<open>What the loop reads\<close>

text \<open>
  These definitions describe a text from outside the loop, to state what the loop does;
  \<open>scan\<close> above is the loop itself. \<open>scanned lines\<close> are the lines the loop reads before
  it breaks: those before the first line that starts with \<open>Answer:\<close>. \<open>directive key ls\<close>
  is what follows \<open>key\<close> on the last of the lines \<open>ls\<close> that start with it, and
  \<open>answer_after lines\<close> is the answer the first \<open>Answer:\<close> line gives with the lines after
  it. \<open>scan_result\<close> puts the three together; that the loop leaves this dictionary is
  proved below (\<open>scan_eq\<close>).
\<close>

definition scanned :: "string list \<Rightarrow> string list" where
  "scanned lines = takeWhile (\<lambda>l. \<not> startswith ''Answer:'' l) lines"

definition directive :: "string \<Rightarrow> string list \<Rightarrow> string option" where
  "directive key ls =
     (case filter (startswith key) ls of
        [] \<Rightarrow> None
      | x # xs \<Rightarrow> Some (drop (length key) (last (x # xs))))"

definition answer_after :: "string list \<Rightarrow> string option" where
  "answer_after lines =
     (case dropWhile (\<lambda>l. \<not> startswith ''Answer:'' l) lines of
        [] \<Rightarrow> None
      | a # post \<Rightarrow> Some (strip (drop (length ''Answer:'') a) @ ''\<newline>'' @ join ''\<newline>'' post))"

definition scan_result :: "(string \<Rightarrow> pyval option) \<Rightarrow> string list \<Rightarrow> results \<Rightarrow> results" where
  "scan_result loads lines r =
     r\<lparr>res_Action :=
         (case directive ''Action:'' (scanned lines) of
            None \<Rightarrow> res_Action r
          | Some a \<Rightarrow> Some (strip a)),
       res_Action_Input :=
         (case directive ''Action Input:'' (scanned lines) of
            None \<Rightarrow> res_Action_Input r
          | Some a \<Rightarrow> action_input loads (strip a)),
       res_Answer :=
         (case answer_after lines of
            None \<Rightarrow> res_Answer r
          | Some a \<Rightarrow> Some a)\<rparr>"

text \<open>The values the field \<open>ActionInput\<close> of the pydantic model takes.\<close>

fun accepted :: "pyval \<Rightarrow> bool" where
  "accepted PNone = True"
| "accepted (PDict kvs) = True"
| "accepted v = False"

text \<open>The first line of a text that is not empty, if there is one.\<close>

definition first_nonempty_line :: "string \<Rightarrow> string option" where
  "first_nonempty_line text =
     (case filter (\<lambda>l. l \<noteq> []) (split_char (CHR 0x0A) text) of
        [] \<Rightarrow> None
      | l # _ \<Rightarrow> Some l)"

text \<open>The bytes that occur in the encoding of a whitespace character.\<close>

definition ws_bytes :: "char set" where
  "ws_bytes = \<Union> (set ` set whitespace)"

section \<open>The JSON decoder of the Python library\<close>

text \<open>
  \<open>json.loads\<close> belongs to the Python library, not to the repository. The parser above
  takes the decoder as an argument, and its theorems hold for every decoder. To run the
  parser on a concrete text, the library's decoder is written out here after the scanner of
  CPython (\<open>scan_once\<close>, \<open>scanstring\<close>, \<open>JSONArray\<close>, \<open>JSONObject\<close>). The first
  argument of the recursive functions bounds the number of steps; \<open>json_loads\<close> starts
  them with the length of the text. A \<open>\\u\<close> escape is stored as the UTF-8 bytes of its
  code point.
\<close>

definition skip_ws :: "string \<Rightarrow> string" where
  "skip_ws s = dropWhile (\<lambda>c. c \<in> set [CHR 0x20, CHR 0x09, CHR 0x0A, CHR 0x0D]) s"

definition is_digit :: "char \<Rightarrow> bool" where
  "is_digit c \<longleftrightarrow> 48 \<le> (of_char c :: nat) \<and> (of_char c :: nat) \<le> 57"

definition digits_value :: "string \<Rightarrow> nat" where
  "digits_value ds = foldl (\<lambda>n c. 10 * n + (of_char c - 48)) 0 ds"

definition hex_digit :: "char \<Rightarrow> nat option" where
  "hex_digit c =
     (let n = of_char c :: nat in
      if 48 \<le> n \<and> n \<le> 57 then Some (n - 48)
      else if 65 \<le> n \<and> n \<le> 70 then Some (n - 55)
      else if 97 \<le> n \<and> n \<le> 102 then Some (n - 87)
      else None)"

definition decode_uXXXX :: "string \<Rightarrow> (nat \<times> string) option" where
  "decode_uXXXX s =
     (case s of
        a # b # c # d # rest \<Rightarrow>
          (case (hex_digit a, hex_digit b, hex_digit c, hex_digit d) of
             (Some h3, Some h2, Some h1, Some h0) \<Rightarrow>
               Some (((h3 * 16 + h2) * 16 + h1) * 16 + h0, rest)
           | _ \<Rightarrow> None)
      | _ \<Rightarrow> None)"

definition utf8 :: "nat \<Rightarrow> string" where
  "utf8 cp =
     (if cp < 0x80 then [char_of cp]
      else if cp < 0x800 then [char_of (0xC0 + cp div 64), char_of (0x80 + cp mod 64)]
      else if cp < 0x10000 then
        [char_of (0xE0 + cp div 4096), char_of (0x80 + cp div 64 mod 64),
         char_of (0x80 + cp mod 64)]
      else
        [char_of (0xF0 + cp div 262144), char_of (0x80 + cp div 4096 mod 64),
         char_of (0x80 + cp div 64 mod 64), char_of (0x80 + cp mod 64)])"

definition simple_escape :: "char \<Rightarrow> char option" where
  "simple_escape e =
     (if e = CHR 0x22 then Some (CHR 0x22)
      else if e = CHR 0x5C then Some (CHR 0x5C)
      else if e = CHR ''/'' then Some (CHR ''/'')
      else if e = CHR ''b'' then Some (CHR 0x08)
      else if e = CHR ''f'' then Some (CHR 0x0C)
      else if e = CHR ''n'' then Some (CHR 0x0A)
      else if e = CHR ''r'' then Some (CHR 0x0D)
      else if e = CHR ''t'' then Some (CHR 0x09)
      else None)"

fun scanstring :: "nat \<Rightarrow> string \<Rightarrow> (string \<times> string) option" where
  "scanstring 0 s = None"
| "scanstring (Suc n) [] = None"
| "scanstring (Suc n) (c # cs) =
     (if c = CHR 0x22 then Some ([], cs)
      else if c = CHR 0x5C then
        (case cs of
           [] \<Rightarrow> None
         | e # es \<Rightarrow>
             if e = CHR ''u'' then
               (case decode_uXXXX es of
                  None \<Rightarrow> None
                | Some (uni, rest) \<Rightarrow>
                    if 0xD800 \<le> uni \<and> uni \<le> 0xDBFF \<and> startswith [CHR 0x5C, CHR ''u''] rest then
                      (case decode_uXXXX (drop 2 rest) of
                         None \<Rightarrow> None
                       | Some (uni2, rest2) \<Rightarrow>
                           if 0xDC00 \<le> uni2 \<and> uni2 \<le> 0xDFFF then
                             map_option
                               (apfst ((@) (utf8 (0x10000 + (uni - 0xD800) * 1024 + (uni2 - 0xDC00)))))
                               (scanstring n rest2)
                           else map_option (apfst ((@) (utf8 uni))) (scanstring n rest))
                    else map_option (apfst ((@) (utf8 uni))) (scanstring n rest))
             else
               (case simple_escape e of
                  None \<Rightarrow> None
                | Some ch \<Rightarrow> map_option (apfst ((#) ch)) (scanstring n es)))
      else if (of_char c :: nat) < 0x20 then None
      else map_option (apfst ((#) c)) (scanstring n cs))"

definition match_number :: "string \<Rightarrow> (pyval \<times> string) option" where
  "match_number s =
     (let (neg, s1) = (case s of c # cs \<Rightarrow> if c = CHR ''-'' then (True, cs) else (False, s)
                                | [] \<Rightarrow> (False, s));
          ds = (case s1 of
                  [] \<Rightarrow> []
                | c # cs \<Rightarrow> if c = CHR ''0'' then [c]
                            else if is_digit c then c # takeWhile is_digit cs else []);
          s2 = drop (length ds) s1;
          fs = (case s2 of
                  c # d # cs \<Rightarrow> if c = CHR ''.'' \<and> is_digit d then d # takeWhile is_digit cs else []
                | _ \<Rightarrow> []);
          s3 = (if fs = [] then s2 else drop (Suc (length fs)) s2);
          (has_exp, eneg, es, s4) =
            (case s3 of
               c # cs \<Rightarrow>
                 if c = CHR ''e'' \<or> c = CHR ''E'' then
                   (let (en, cs') = (case cs of
                                       d # ds' \<Rightarrow> if d = CHR ''-'' then (True, ds')
                                                   else if d = CHR ''+'' then (False, ds')
                                                   else (False, cs)
                                     | [] \<Rightarrow> (False, cs));
                        xs = takeWhile is_digit cs'
                    in if xs = [] then (False, False, [], s3)
                       else (True, en, xs, drop (length xs) cs'))
                 else (False, False, [], s3)
             | [] \<Rightarrow> (False, False, [], s3));
          sign = (if neg then - 1 else 1 :: int)
      in if ds = [] then None
         else if fs = [] \<and> \<not> has_exp then Some (PInt (sign * int (digits_value ds)), s4)
         else Some (PFloat (Finite (sign * int (digits_value (ds @ fs)))
                      ((if eneg then - 1 else 1) * int (digits_value es) - int (length fs))), s4))"

text \<open>\<open>d[k] = v\<close> on a dictionary kept as the list of its items in insertion order.\<close>

fun dict_set :: "'k \<Rightarrow> 'v \<Rightarrow> ('k \<times> 'v) list \<Rightarrow> ('k \<times> 'v) list" where
  "dict_set k v [] = [(k, v)]"
| "dict_set k v ((k', v') # kvs) = (if k = k' then (k, v) # kvs else (k', v') # dict_set k v kvs)"

definition dict_of :: "(string \<times> pyval) list \<Rightarrow> (string \<times> pyval) list" where
  "dict_of pairs = foldl (\<lambda>d (k, v). dict_set k v d) [] pairs"

fun scan_once :: "nat \<Rightarrow> string \<Rightarrow> (pyval \<times> string) option"
  and JSONArray :: "nat \<Rightarrow> string \<Rightarrow> (pyval list \<times> string) option"
  and JSONObject :: "nat \<Rightarrow> string \<Rightarrow> ((string \<times> pyval) list \<times> string) option"
where
  "scan_once 0 s = None"
| "scan_once (Suc n) s =
     (case s of
        [] \<Rightarrow> None
      | c # cs \<Rightarrow>
          if c = CHR 0x22 then map_option (apfst PStr) (scanstring (length cs) cs)
          else if c = CHR ''{'' then
            (case skip_ws cs of
               [] \<Rightarrow> None
             | d # ds \<Rightarrow>
                 if d = CHR ''}'' then Some (PDict [], ds)
                 else map_option (apfst (\<lambda>kvs. PDict (dict_of kvs))) (JSONObject n (d # ds)))
          else if c = CHR ''['' then
            (case skip_ws cs of
               [] \<Rightarrow> None
             | d # ds \<Rightarrow>
                 if d = CHR '']'' then Some (PList [], ds)
                 else map_option (apfst PList) (JSONArray n (d # ds)))
          else if startswith ''null'' s then Some (PNone, drop 4 s)
          else if startswith ''true'' s then Some (PBool True, drop 4 s)
          else if startswith ''false'' s then Some (PBool False, drop 5 s)
          else
            (case match_number s of
               Some m \<Rightarrow> Some m
             | None \<Rightarrow>
                 if startswith ''NaN'' s then Some (PFloat NaN, drop 3 s)
                 else if startswith ''Infinity'' s then Some (PFloat PosInf, drop 8 s)
                 else if startswith ''-Infinity'' s then Some (PFloat NegInf, drop 9 s)
                 else None))"
| "JSONArray 0 s = None"
| "JSONArray (Suc n) s =
     (case scan_once n s of
        None \<Rightarrow> None
      | Some (v, r) \<Rightarrow>
          (case skip_ws r of
             [] \<Rightarrow> None
           | c # cs \<Rightarrow>
               if c = CHR '']'' then Some ([v], cs)
               else if c = CHR '','' then
                 map_option (apfst ((#) v)) (JSONArray n (skip_ws cs))
               else None))"
| "JSONObject 0 s = None"
| "JSONObject (Suc n) s =
     (case s of
        [] \<Rightarrow> None
      | q # s1 \<Rightarrow>
          if q \<noteq> CHR 0x22 then None
          else
            (case scanstring (length s1) s1 of
               None \<Rightarrow> None
             | Some (key, r) \<Rightarrow>
                 (case skip_ws r of
                    [] \<Rightarrow> None
                  | c # cs \<Rightarrow>
                      if c \<noteq> CHR '':'' then None
                      else
                        (case scan_once n (skip_ws cs) of
                           None \<Rightarrow> None
                         | Some (v, r') \<Rightarrow>
                             (case skip_ws r' of
                                [] \<Rightarrow> None
                              | e # es \<Rightarrow>
                                  if e = CHR ''}'' then Some ([(key, v)], es)
                                  else if e = CHR '','' then
                                    map_option (apfst ((#) (key, v))) (JSONObject n (skip_ws es))
                                  else None)))))"

definition json_loads :: "string \<Rightarrow> pyval option" where
  "json_loads s =
     (case scan_once (Suc (length s)) (skip_ws s) of
        None \<Rightarrow> None
      | Some (v, r) \<Rightarrow> if skip_ws r = [] then Some v else None)"

section \<open>Tool results as prompt messages (agents/backends/react.py)\<close>

record message =
  role :: string
  content :: string

text \<open>
  The inner loop of \<open>tool_results_to_prompts\<close> over \<open>args.items()\<close>, with its flag
  \<open>first_tool\<close> and the text \<open>out\<close> built so far. The values of the arguments are of any
  type: \<open>is_str\<close> stands for \<open>isinstance(value, str)\<close> and \<open>fmt\<close> for the text an
  f-string puts for a value, which for a \<open>str\<close> is the string itself.
\<close>

fun render_args ::
  "('v \<Rightarrow> bool) \<Rightarrow> ('v \<Rightarrow> string) \<Rightarrow> bool \<Rightarrow> string \<Rightarrow> (string \<times> 'v) list \<Rightarrow> string" where
  "render_args is_str fmt first_tool out [] = out"
| "render_args is_str fmt first_tool out ((arg, v) # rest) =
     (let out1 = (if first_tool then out else out @ '', '');
          out2 = out1 @ arg @ ''='';
          out3 = (if is_str v then out2 @ [CHR 0x22] @ fmt v @ [CHR 0x22] else out2 @ fmt v)
      in render_args is_str fmt False out3 rest)"

fun tool_results_to_prompts ::
  "('v \<Rightarrow> bool) \<Rightarrow> ('v \<Rightarrow> string) \<Rightarrow> message list \<Rightarrow>
     (string \<times> (string \<times> 'v) list \<times> 'v) list \<Rightarrow> message list" where
  "tool_results_to_prompts is_str fmt prompt [] = prompt"
| "tool_results_to_prompts is_str fmt prompt ((name, args, result) # rest) =
     (let out = render_args is_str fmt True (''---\<newline>'' @ name @ ''('') args
                  @ '') returned:\<newline>'' @ fmt result @ ''\<newline>''
      in tool_results_to_prompts is_str fmt
           (prompt @ [\<lparr>role = ''system'', content = out\<rparr>]) rest)"

text \<open>\<open>str\<close> of an \<open>int\<close>: its decimal digits, with a minus sign below zero.\<close>

fun str_nat :: "nat \<Rightarrow> string" where
  "str_nat n = (if n < 10 then [char_of (48 + n)] else str_nat (n div 10) @ [char_of (48 + n mod 10)])"

definition str_int :: "int \<Rightarrow> string" where
  "str_int i = (if i < 0 then CHR ''-'' # str_nat (nat (- i)) else str_nat (nat i))"

text \<open>Values whose text form the language fixes, for running the functions on examples.\<close>

datatype scalar = SNone | SBool bool | SInt int | SStr string

fun isinstance_str :: "scalar \<Rightarrow> bool" where
  "isinstance_str (SStr s) = True"
| "isinstance_str v = False"

fun format_scalar :: "scalar \<Rightarrow> string" where
  "format_scalar SNone = ''None''"
| "format_scalar (SBool b) = (if b then ''True'' else ''False'')"
| "format_scalar (SInt i) = str_int i"
| "format_scalar (SStr s) = s"

text \<open>
  The message the interface description words: the call \<open>name(arg=value, ...)\<close>, the
  arguments separated by a comma and a space, then \<open>returned:\<close> and the result on its own
  line. \<open>call_text\<close> is that text without anything before the name.
\<close>

definition render_arg :: "('v \<Rightarrow> bool) \<Rightarrow> ('v \<Rightarrow> string) \<Rightarrow> string \<times> 'v \<Rightarrow> string" where
  "render_arg is_str fmt av =
     fst av @ ''='' @ (if is_str (snd av) then [CHR 0x22] @ fmt (snd av) @ [CHR 0x22]
                       else fmt (snd av))"

definition call_text ::
  "('v \<Rightarrow> bool) \<Rightarrow> ('v \<Rightarrow> string) \<Rightarrow> string \<times> (string \<times> 'v) list \<times> 'v \<Rightarrow> string" where
  "call_text is_str fmt call =
     fst call @ ''('' @ join '', '' (map (render_arg is_str fmt) (fst (snd call)))
       @ '') returned:\<newline>'' @ fmt (snd (snd call)) @ ''\<newline>''"

definition result_message ::
  "('v \<Rightarrow> bool) \<Rightarrow> ('v \<Rightarrow> string) \<Rightarrow> string \<times> (string \<times> 'v) list \<times> 'v \<Rightarrow> message" where
  "result_message is_str fmt call =
     \<lparr>role = ''system'', content = ''---\<newline>'' @ call_text is_str fmt call\<rparr>"

section \<open>The retry wrapper (agents/flow/retry.py)\<close>

text \<open>
  Modelled from the spec: the \<open>Tool\<close> base class, whose module agents/tools/tool.py is
  absent. A tool is "a named, typed, callable unit with a fixed argument schema"; its
  constructor keeps the name, the arguments, the description and the examples it is given.
  The types of the arguments and of the examples are left open.
\<close>

record ('a, 'x) Tool =
  name :: string
  args :: 'a
  description :: string
  examples :: 'x

text \<open>
  An exception class is the builtin \<open>Exception\<close> or another class, given by its name.
  A \<open>Retry\<close> object is a \<open>Tool\<close> with the four attributes \<open>_tool\<close>, \<open>_max_retries\<close>,
  \<open>_delay\<close> and \<open>_exceptions\<close> that \<open>__init__\<close> sets.
\<close>

datatype exc_class = Exception | Class string

record ('a, 'x) Retry = "('a, 'x) Tool" +
  tool :: "('a, 'x) Tool"
  max_retries :: int
  delay :: real
  exceptions :: "exc_class list"

text \<open>
  \<open>Retry.__init__\<close>. The argument \<open>exceptions\<close> is \<open>None\<close>, one class (\<open>Inl\<close>) or a list of
  classes (\<open>Inr\<close>); \<open>not name\<close> holds for \<open>None\<close> and for the empty string.
\<close>

definition Retry_init ::
  "('a, 'x) Tool \<Rightarrow> int \<Rightarrow> (exc_class + exc_class list) option \<Rightarrow> real \<Rightarrow>
     string option \<Rightarrow> string option \<Rightarrow> ('a, 'x) Retry" where
  "Retry_init t n excs d nm descr =
     \<lparr>name = (case nm of
                None \<Rightarrow> name t @ ''::retry_'' @ str_int n
              | Some x \<Rightarrow> if x = [] then name t @ ''::retry_'' @ str_int n else x),
      args = args t,
      description = (case descr of
                       None \<Rightarrow> description t
                     | Some x \<Rightarrow> if x = [] then description t else x),
      examples = examples t,
      tool = t,
      max_retries = n,
      delay = d,
      exceptions = (case excs of
                      None \<Rightarrow> [Exception]
                    | Some (Inr cs) \<Rightarrow> cs
                    | Some (Inl c) \<Rightarrow> [c])\<rparr>"

text \<open>
  One invocation of the base tool returns a value or raises. The base tool has a state of
  its own, which an invocation may change: \<open>invoke\<close> maps the state before to the outcome
  and the state after. What \<open>retry_invoke\<close> does to the world is the state of the base tool
  together with the list of the pauses \<open>time.sleep\<close> has made.
\<close>

datatype ('e, 'r) outcome = Return 'r | Raise 'e

text \<open>
  The result of \<open>retry_invoke\<close>: a value, an exception of the base tool, or the
  \<open>TypeError\<close> of \<open>raise None\<close> when the loop has never run.
\<close>

datatype ('e, 'r) retry_result = Returned 'r | Raised 'e | Raised_TypeError

text \<open>
  The exception kinds a wrapper is configured to match, in the words of its contract: "an
  optional set of exception kinds to match (default: match any failure kind)". \<open>matched\<close>
  speaks of the argument \<open>exceptions\<close> given to the constructor: without it every instance of
  \<open>Exception\<close> is matched, with one class the instances of that class, with a list of
  classes the instances of any of them.
\<close>

fun matched ::
  "('e \<Rightarrow> exc_class \<Rightarrow> bool) \<Rightarrow> (exc_class + exc_class list) option \<Rightarrow> 'e \<Rightarrow> bool" where
  "matched isinstance None e = isinstance e Exception"
| "matched isinstance (Some (Inl c)) e = isinstance e c"
| "matched isinstance (Some (Inr cs)) e = list_ex (isinstance e) cs"

text \<open>\<open>except self._exceptions as e\<close> takes \<open>e\<close> when it is an instance of one of the classes.\<close>

definition caught :: "('e \<Rightarrow> exc_class \<Rightarrow> bool) \<Rightarrow> exc_class list \<Rightarrow> 'e \<Rightarrow> bool" where
  "caught isinstance classes e = list_ex (isinstance e) classes"

definition raise_last :: "'e option \<Rightarrow> ('e, 'r) retry_result" where
  "raise_last last_exception =
     (case last_exception of None \<Rightarrow> Raised_TypeError | Some e \<Rightarrow> Raised e)"

text \<open>The \<open>while attempts <= self._max_retries\<close> loop and the \<open>raise\<close> after it.\<close>

function retry_loop ::
  "('e \<Rightarrow> exc_class \<Rightarrow> bool) \<Rightarrow> ('s \<Rightarrow> ('e, 'r) outcome \<times> 's) \<Rightarrow> ('a, 'x) Retry \<Rightarrow>
     int \<Rightarrow> 'e option \<Rightarrow> 's \<times> real list \<Rightarrow> ('e, 'r) retry_result \<times> 's \<times> real list" where
  "retry_loop isinstance invoke self attempts last_exception (s, slept) =
     (if attempts \<le> max_retries self then
        (case invoke s of
           (Return v, s') \<Rightarrow> (Returned v, s', slept)
         | (Raise e, s') \<Rightarrow>
             if caught isinstance (exceptions self) e then
               (if attempts + 1 \<le> max_retries self then
                  retry_loop isinstance invoke self (attempts + 1) (Some e)
                    (s', if delay self > 0 then slept @ [delay self] else slept)
                else (raise_last (Some e), s', slept))
             else (Raised e, s', slept))
      else (raise_last last_exception, s, slept))"
  by pat_completeness auto
termination
  by (relation "measure (\<lambda>(isinstance, invoke, self, attempts, last_exception, w).
                  nat (max_retries self + 1 - attempts))") auto

definition retry_invoke ::
  "('e \<Rightarrow> exc_class \<Rightarrow> bool) \<Rightarrow> ('s \<Rightarrow> ('e, 'r) outcome \<times> 's) \<Rightarrow> ('a, 'x) Retry \<Rightarrow>
     's \<times> real list \<Rightarrow> ('e, 'r) retry_result \<times> 's \<times> real list" where
  "retry_invoke isinstance invoke self w = retry_loop isinstance invoke self 0 None w"

text \<open>
  A base tool given by a script: its state is the number of invocations made so far, and
  the invocation after \<open>n\<close> others has the outcome \<open>script n\<close>.
\<close>

definition scripted :: "(nat \<Rightarrow> ('e, 'r) outcome) \<Rightarrow> nat \<Rightarrow> ('e, 'r) outcome \<times> nat" where
  "scripted script n = (script n, Suc n)"

text \<open>The tool that fails \<open>k\<close> times, with the exceptions \<open>errs 0\<close>, ..., then succeeds.\<close>

definition fails_then_succeeds :: "nat \<Rightarrow> (nat \<Rightarrow> 'e) \<Rightarrow> 'r \<Rightarrow> nat \<Rightarrow> ('e, 'r) outcome" where
  "fails_then_succeeds k errs v n = (if n < k then Raise (errs n) else Return v)"

text \<open>
  Exceptions for the examples: a class and a message. \<open>mro\<close> lists a class with the classes
  it derives from, for the part of Python's builtin hierarchy the examples use:
  \<open>KeyboardInterrupt\<close>, \<open>SystemExit\<close> and \<open>GeneratorExit\<close> derive from \<open>BaseException\<close> and
  not from \<open>Exception\<close>; \<open>TimeoutError\<close> and \<open>ConnectionError\<close> derive from \<open>OSError\<close>,
  \<open>KeyError\<close> and \<open>IndexError\<close> from \<open>LookupError\<close>; every other class is taken to derive from
  \<open>Exception\<close> at once. An exception is an instance of the classes in the list of its class.
\<close>

record exc =
  exc_class :: exc_class
  exc_message :: string

definition mro :: "exc_class \<Rightarrow> exc_class list" where
  "mro c =
     (case c of
        Exception \<Rightarrow> [Exception, Class ''BaseException'']
      | Class n \<Rightarrow>
          if n = ''BaseException'' then [c]
          else if n \<in> set [''KeyboardInterrupt'', ''SystemExit'', ''GeneratorExit'']
            then [c, Class ''BaseException'']
          else if n \<in> set [''TimeoutError'', ''ConnectionError'']
            then [c, Class ''OSError'', Exception, Class ''BaseException'']
          else if n \<in> set [''KeyError'', ''IndexError'']
            then [c, Class ''LookupError'', Exception, Class ''BaseException'']
          else [c, Exception, Class ''BaseException''])"

definition isinstance_exc :: "exc \<Rightarrow> exc_class \<Rightarrow> bool" where
  "isinstance_exc e c \<longleftrightarrow> c \<in> set (mro (exc_class e))"

text \<open>
  What one invocation of the base tool leaves to the loop: \<open>terminal\<close> holds when the
  loop ends with that invocation, as the invocation after \<open>j\<close> others, and \<open>as_result\<close> is
  what the caller then sees. \<open>pauses self n\<close> are the \<open>n\<close> calls of \<open>time.sleep\<close> between
  \<open>n + 1\<close> attempts, none if the delay is not positive.
\<close>

definition terminal :: "('e \<Rightarrow> exc_class \<Rightarrow> bool) \<Rightarrow> ('a, 'x) Retry \<Rightarrow> nat \<Rightarrow> ('e, 'r) outcome \<Rightarrow> bool" where
  "terminal isinstance self j out =
     (case out of
        Return v \<Rightarrow> True
      | Raise e \<Rightarrow> if caught isinstance (exceptions self) e then max_retries self < int j + 1 else True)"

fun as_result :: "('e, 'r) outcome \<Rightarrow> ('e, 'r) retry_result" where
  "as_result (Return v) = Returned v"
| "as_result (Raise e) = Raised e"

definition pauses :: "('a, 'x) Retry \<Rightarrow> nat \<Rightarrow> real list" where
  "pauses self n = (if delay self > 0 then replicate n (delay self) else [])"

definition search_tool :: "(string list, unit) Tool" where
  "search_tool = \<lparr>name = ''search'', args = [''q''], description = ''Searches the web'', examples = ()\<rparr>"

definition timeout_error :: "nat \<Rightarrow> exc" where
  "timeout_error i = \<lparr>exc_class = Class ''TimeoutError'', exc_message = ''attempt '' @ str_nat i\<rparr>"

definition key_error :: exc where
  "key_error = \<lparr>exc_class = Class ''KeyError'', exc_message = ''q''\<rparr>"

definition keyboard_interrupt :: exc where
  "keyboard_interrupt = \<lparr>exc_class = Class ''KeyboardInterrupt'', exc_message = []\<rparr>"

definition timeout_then_key_error :: "nat \<Rightarrow> (exc, string) outcome" where
  "timeout_then_key_error n = (if n < 1 then Raise (timeout_error n) else Raise key_error)"

definition raises :: "exc \<Rightarrow> nat \<Rightarrow> (exc, string) outcome" where
  "raises e n = Raise e"

section \<open>The registrar (agents/registrar/registrar.py)\<close>

text \<open>
  Modelled from the spec: the call listeners of a \<open>Tool\<close>, whose module
  agents/tools/tool.py is absent. A tool "owns a list of call-listeners it notifies
  synchronously on invocation": \<open>add_on_call_listener\<close> appends to the list, and
  \<open>notify_call\<close> runs the listeners in order. A listener is the hook of the registrar,
  \<open>Registrar._on_tool_call\<close>, or some other callable, which leaves the registrar alone.
  Tools are objects: the registrar and the caller hold the same tool by its reference, a
  number, and \<open>heap\<close> gives the object behind a reference.
\<close>

datatype callback = Registrar_on_tool_call | Other_callback nat

record tool_obj =
  tool_id :: string
  on_call_listeners :: "callback list"

definition add_on_call_listener :: "callback \<Rightarrow> tool_obj \<Rightarrow> tool_obj" where
  "add_on_call_listener cb t = t\<lparr>on_call_listeners := on_call_listeners t @ [cb]\<rparr>"

text \<open>
  The class attributes of \<open>Registrar\<close> (\<open>_enabled\<close>, \<open>_tools\<close>, the listeners) with the
  heap of the tools and the tasks submitted to the executor so far, each a listener with the
  tool and the context it is to be called with.
\<close>

record ('l, 'c) world =
  heap :: "nat \<Rightarrow> tool_obj"
  enabled :: bool
  tools :: "(string \<times> nat) list"
  on_tool_call_listeners :: "'l list"
  tasks :: "('l \<times> nat \<times> 'c) list"

text \<open>
  \<open>Registrar.register\<close>. The test \<open>if tool.id in cls._tools\<close> has the body \<open>pass\<close> and no
  other branch: with either outcome the assignment and the call of
  \<open>add_on_call_listener\<close> follow.
\<close>

definition register :: "nat \<Rightarrow> ('l, 'c) world \<Rightarrow> ('l, 'c) world" where
  "register t w =
     (let w1 = (if tool_id (heap w t) \<in> set (map fst (tools w)) then w else w);
          w2 = w1\<lparr>tools := dict_set (tool_id (heap w1 t)) t (tools w1)\<rparr>
      in w2\<lparr>heap := (heap w2)(t := add_on_call_listener Registrar_on_tool_call (heap w2 t))\<rparr>)"

definition on_tool_call :: "nat \<Rightarrow> 'c \<Rightarrow> ('l, 'c) world \<Rightarrow> ('l, 'c) world" where
  "on_tool_call t ctx w =
     (if enabled w
      then w\<lparr>tasks := tasks w @ map (\<lambda>listener. (listener, t, ctx)) (on_tool_call_listeners w)\<rparr>
      else w)"

definition get_tools :: "('l, 'c) world \<Rightarrow> nat list" where
  "get_tools w = map snd (tools w)"

definition add_tool_call_listener :: "'l \<Rightarrow> ('l, 'c) world \<Rightarrow> ('l, 'c) world" where
  "add_tool_call_listener listener w =
     w\<lparr>on_tool_call_listeners := on_tool_call_listeners w @ [listener]\<rparr>"

definition enable :: "('l, 'c) world \<Rightarrow> ('l, 'c) world" where
  "enable w = w\<lparr>enabled := True\<rparr>"

definition disable :: "('l, 'c) world \<Rightarrow> ('l, 'c) world" where
  "disable w = w\<lparr>enabled := False\<rparr>"

text \<open>One invocation of the tool \<open>t\<close>: each of its listeners is called with it.\<close>

definition run_callback :: "nat \<Rightarrow> 'c \<Rightarrow> ('l, 'c) world \<Rightarrow> callback \<Rightarrow> ('l, 'c) world" where
  "run_callback t ctx w cb =
     (case cb of Registrar_on_tool_call \<Rightarrow> on_tool_call t ctx w | Other_callback n \<Rightarrow> w)"

definition notify_call :: "nat \<Rightarrow> 'c \<Rightarrow> ('l, 'c) world \<Rightarrow> ('l, 'c) world" where
  "notify_call t ctx w = foldl (run_callback t ctx) w (on_call_listeners (heap w t))"

text \<open>
  The process at its start: no tool registered, no listener, dispatch disabled, and behind
  every reference a tool of its own identity that nobody listens to.
\<close>

definition new_tool :: "nat \<Rightarrow> tool_obj" where
  "new_tool n = \<lparr>tool_id = ''tool-'' @ str_nat n, on_call_listeners = []\<rparr>"

definition start :: "(string, string) world" where
  "start = \<lparr>heap = new_tool, enabled = False, tools = [], on_tool_call_listeners = [], tasks = []\<rparr>"

section \<open>The retry wrapper: properties\<close>

lemma pauses_Suc:
  "(if delay self > 0 then slept @ [delay self] else slept) @ pauses self d
     = slept @ pauses self (Suc d)"
  by (simp add: pauses_def replicate_app_Cons_same)

text \<open>
  The loop on a scripted tool: from the invocation after \<open>n\<close> others on, the matched
  failures up to the invocation after \<open>j\<close> others are retried, and that one ends the loop.
\<close>

lemma retry_loop_scripted:
  assumes "\<And>i. n \<le> i \<Longrightarrow> i < j \<Longrightarrow> \<exists>e. script i = Raise e \<and> caught isinstance (exceptions self) e"
    and "n \<le> j" and "int j \<le> max_retries self"
    and "terminal isinstance self j (script j)"
  shows "retry_loop isinstance (scripted script) self (int n) lst (n, slept)
           = (as_result (script j), Suc j, slept @ pauses self (j - n))"
  using assms
proof (induction "j - n" arbitrary: n lst slept)
  case 0
  then have nj: "n = j" by simp
  show ?case
  proof (cases "script j")
    case (Return v)
    with 0 nj show ?thesis
      by (subst retry_loop.simps) (simp add: scripted_def pauses_def)
  next
    case (Raise e)
    with 0 nj show ?thesis
      by (subst retry_loop.simps) (auto simp: scripted_def terminal_def raise_last_def pauses_def)
  qed
next
  case (Suc d)
  then have lt: "n < j" by simp
  from Suc.prems(1)[of n] lt obtain e where e: "script n = Raise e" "caught isinstance (exceptions self) e"
    by auto
  have le: "int n + 1 \<le> max_retries self" using lt Suc.prems(3) by simp
  have d: "d = j - Suc n" using Suc.hyps(2) by simp
  have "retry_loop isinstance (scripted script) self (int (Suc n)) (Some e)
          (Suc n, if delay self > 0 then slept @ [delay self] else slept)
           = (as_result (script j), Suc j,
              (if delay self > 0 then slept @ [delay self] else slept) @ pauses self (j - Suc n))"
  proof (rule Suc.hyps(1))
    show "d = j - Suc n" by (rule d)
    show "\<And>i. Suc n \<le> i \<Longrightarrow> i < j \<Longrightarrow> \<exists>e. script i = Raise e \<and> caught isinstance (exceptions self) e"
      using Suc.prems(1) by simp
    show "Suc n \<le> j" using lt by simp
    show "int j \<le> max_retries self" by (rule Suc.prems(3))
    show "terminal isinstance self j (script j)" by (rule Suc.prems(4))
  qed
  moreover have "retry_loop isinstance (scripted script) self (int n) lst (n, slept)
     = retry_loop isinstance (scripted script) self (int (Suc n)) (Some e)
          (Suc n, if delay self > 0 then slept @ [delay self] else slept)"
    using e le by (subst retry_loop.simps) (simp add: scripted_def add.commute)
  moreover have "j - n = Suc (j - Suc n)" using lt by simp
  ultimately show ?case by (simp only: pauses_Suc)
qed

text \<open>
  Claim C4. A base tool fails \<open>k\<close> times, each time with an exception the wrapper matches,
  and then succeeds. With \<open>max_retries \<ge> k\<close> the wrapped invocation returns the value of the
  success after exactly \<open>k + 1\<close> invocations of the base tool. With \<open>max_retries < k\<close> it makes
  exactly \<open>max_retries + 1\<close> invocations and raises the exception of the last of them, not of
  the first. The state of the scripted tool counts its invocations; \<open>max_retries\<close> is not
  negative, as the contract of the wrapper has it.
\<close>

theorem retry_fails_then_succeeds:
  assumes "\<forall>i<k. caught isinstance (exceptions self) (errs i)"
    and "0 \<le> max_retries self"
  shows "retry_invoke isinstance (scripted (fails_then_succeeds k errs v)) self (0, [])
           = (if int k \<le> max_retries self
              then (Returned v, k + 1, pauses self k)
              else (Raised (errs (nat (max_retries self))), nat (max_retries self) + 1,
                    pauses self (nat (max_retries self))))"
proof (cases "int k \<le> max_retries self")
  case True
  have "retry_loop isinstance (scripted (fails_then_succeeds k errs v)) self (int 0) None (0, [])
          = (as_result (fails_then_succeeds k errs v k), Suc k, [] @ pauses self (k - 0))"
    using assms(1) True
    by (intro retry_loop_scripted) (simp_all add: fails_then_succeeds_def terminal_def)
  with True show ?thesis
    by (simp add: retry_invoke_def fails_then_succeeds_def)
next
  case False
  define m where "m = nat (max_retries self)"
  have m: "int m = max_retries self" "m < k" using False assms(2) by (simp_all add: m_def)
  have "retry_loop isinstance (scripted (fails_then_succeeds k errs v)) self (int 0) None (0, [])
          = (as_result (fails_then_succeeds k errs v m), Suc m, [] @ pauses self (m - 0))"
    using assms(1) m
    by (intro retry_loop_scripted) (simp_all add: fails_then_succeeds_def terminal_def)
  with False m show ?thesis
    by (simp add: retry_invoke_def fails_then_succeeds_def m_def)
qed

theorem retry_fails_then_succeeds_witness:
  "retry_invoke isinstance_exc (scripted (fails_then_succeeds 2 timeout_error ''ok''))
      (Retry_init search_tool 3 None (1/2) None None) (0, [])
     = (Returned ''ok'', 3, [1/2, 1/2])
   \<and> retry_invoke isinstance_exc (scripted (fails_then_succeeds 2 timeout_error ''ok''))
      (Retry_init search_tool 1 (Some (Inl (Class ''TimeoutError''))) 0 None None) (0, [])
     = (Raised (timeout_error 1), 2, [])"
proof -
  have a: "\<forall>i<2. caught isinstance_exc (exceptions (Retry_init search_tool 3 None (1/2) None None)) (timeout_error i)"
    by (simp add: caught_def isinstance_exc_def mro_def Retry_init_def timeout_error_def)
  have b: "\<forall>i<2. caught isinstance_exc
     (exceptions (Retry_init search_tool 1 (Some (Inl (Class ''TimeoutError''))) 0 None None)) (timeout_error i)"
    by (simp add: caught_def isinstance_exc_def mro_def Retry_init_def timeout_error_def)
  show ?thesis
    using retry_fails_then_succeeds [OF a, of "''ok''"] retry_fails_then_succeeds [OF b, of "''ok''"]
    by (simp add: Retry_init_def pauses_def numeral_2_eq_2)
qed

text \<open>
  The loop of a wrapper with any attributes: after \<open>j\<close> failures it catches, an exception it
  does not catch leaves \<open>retry_invoke\<close> with the invocation that raised it.
\<close>

lemma retry_invoke_uncaught:
  assumes "\<forall>i<j. \<exists>x. script i = Raise x \<and> caught isinstance (exceptions self) x"
    and "script j = Raise e"
    and "\<not> caught isinstance (exceptions self) e"
    and "int j \<le> max_retries self"
  shows "retry_invoke isinstance (scripted script) self (0, [])
           = (Raised e, j + 1, pauses self j)"
proof -
  have "retry_loop isinstance (scripted script) self (int 0) None (0, [])
          = (as_result (script j), Suc j, [] @ pauses self (j - 0))"
    using assms by (intro retry_loop_scripted) (simp_all add: terminal_def)
  with assms(2) show ?thesis by (simp add: retry_invoke_def)
qed

text \<open>What the constructor stores is the configured set: the loop catches what is matched.\<close>

lemma caught_Retry_init:
  "caught isinstance (exceptions (Retry_init t n excs d nm descr)) e = matched isinstance excs e"
proof (cases excs)
  case None
  then show ?thesis by (simp add: caught_def Retry_init_def)
next
  case (Some x)
  then show ?thesis by (cases x) (simp_all add: caught_def Retry_init_def)
qed

text \<open>
  Claim C7. A wrapper is built by \<open>Retry.__init__\<close> with any argument \<open>exceptions\<close>: none, one
  class or a list of classes. When the base tool raises an exception outside the set so
  configured, the wrapper raises that exception at once. The invocation that raised it is
  the last one, however many retries are left: after \<open>j\<close> matched failures, with
  \<open>j \<le> max_retries\<close>, the base tool has been invoked \<open>j + 1\<close> times and no more.
\<close>

theorem retry_unmatched_reraised:
  assumes "\<forall>i<j. \<exists>x. script i = Raise x \<and> matched isinstance excs x"
    and "script j = Raise e"
    and "\<not> matched isinstance excs e"
    and "int j \<le> n"
  shows "retry_invoke isinstance (scripted script) (Retry_init t n excs d nm descr) (0, [])
           = (Raised e, j + 1, if d > 0 then replicate j d else [])"
proof -
  let ?self = "Retry_init t n excs d nm descr"
  have a: "\<forall>i<j. \<exists>x. script i = Raise x \<and> caught isinstance (exceptions ?self) x"
    using assms(1) by (simp add: caught_Retry_init)
  have c: "\<not> caught isinstance (exceptions ?self) e"
    using assms(3) by (simp add: caught_Retry_init)
  have d: "int j \<le> max_retries ?self"
    using assms(4) by (simp add: Retry_init_def)
  have "pauses ?self j = (if d > 0 then replicate j d else [])"
    by (simp add: pauses_def Retry_init_def)
  with retry_invoke_uncaught [OF a assms(2) c d] show ?thesis by simp
qed

theorem retry_unmatched_reraised_witness:
  "retry_invoke isinstance_exc (scripted timeout_then_key_error)
      (Retry_init search_tool 5 (Some (Inr [Class ''ValueError'', Class ''OSError''])) (1/2) None None)
      (0, [])
     = (Raised key_error, 2, [1/2])
   \<and> retry_invoke isinstance_exc (scripted (raises key_error))
      (Retry_init search_tool 5 (Some (Inl (Class ''TimeoutError''))) 0 None None) (0, [])
     = (Raised key_error, 1, [])
   \<and> retry_invoke isinstance_exc (scripted (raises keyboard_interrupt))
      (Retry_init search_tool 5 None 0 None None) (0, [])
     = (Raised keyboard_interrupt, 1, [])"
proof -
  have a1: "\<forall>i<1. \<exists>x. timeout_then_key_error i = Raise x
      \<and> matched isinstance_exc (Some (Inr [Class ''ValueError'', Class ''OSError''])) x"
    by (simp add: timeout_then_key_error_def isinstance_exc_def mro_def timeout_error_def)
  have b1: "timeout_then_key_error 1 = Raise key_error"
    by (simp add: timeout_then_key_error_def)
  have c1: "\<not> matched isinstance_exc (Some (Inr [Class ''ValueError'', Class ''OSError''])) key_error"
    by (simp add: isinstance_exc_def mro_def key_error_def)
  have d1: "int 1 \<le> 5" by simp
  have a2: "\<forall>i<0. \<exists>x. raises key_error i = Raise x
      \<and> matched isinstance_exc (Some (Inl (Class ''TimeoutError''))) x"
    by simp
  have b2: "raises key_error 0 = Raise key_error" by (simp add: raises_def)
  have c2: "\<not> matched isinstance_exc (Some (Inl (Class ''TimeoutError''))) key_error"
    by (simp add: isinstance_exc_def mro_def key_error_def)
  have a3: "\<forall>i<0. \<exists>x. raises keyboard_interrupt i = Raise x \<and> matched isinstance_exc None x"
    by simp
  have b3: "raises keyboard_interrupt 0 = Raise keyboard_interrupt" by (simp add: raises_def)
  have c3: "\<not> matched isinstance_exc None keyboard_interrupt"
    by (simp add: isinstance_exc_def mro_def keyboard_interrupt_def)
  have d0: "int 0 \<le> 5" by simp
  show ?thesis
    using retry_unmatched_reraised [OF a1 b1 c1 d1, of search_tool "1/2" None None]
      retry_unmatched_reraised [OF a2 b2 c2 d0, of search_tool 0 None None]
      retry_unmatched_reraised [OF a3 b3 c3 d0, of search_tool 0 None None]
    by simp
qed

text \<open>
  Claim C6 says that the wrapper built without a name and a description of its own has the
  name, the arguments and the description of the base tool. The name differs: for the tool
  \<open>search\<close> and three retries it is \<open>search::retry_3\<close>.
\<close>

theorem retry_init_name_counterexample:
  "name (Retry_init search_tool 3 None 0 None None) = ''search::retry_3''
   \<and> name (Retry_init search_tool 3 None 0 None None) \<noteq> name search_tool"
  by code_simp

text \<open>
  Claim C6, amended. The wrapper built without a name and a description of its own has the
  arguments, the description and the examples of the base tool, and its name is the name of
  the base tool followed by \<open>::retry_\<close> and \<open>max_retries\<close> in decimal digits.
\<close>

theorem retry_init_keeps_schema:
  "name (Retry_init t n excs d None None) = name t @ ''::retry_'' @ str_int n
   \<and> args (Retry_init t n excs d None None) = args t
   \<and> description (Retry_init t n excs d None None) = description t
   \<and> examples (Retry_init t n excs d None None) = examples t"
  by (simp add: Retry_init_def)

section \<open>Tool results as prompt messages: properties\<close>

lemma render_args_rest:
  "render_args is_str fmt False out kvs
     = out @ concat (map (\<lambda>av. '', '' @ render_arg is_str fmt av) kvs)"
  by (induction kvs arbitrary: out) (auto simp: render_arg_def Let_def)

lemma join_Cons: "join sep (x # xs) = x @ concat (map ((@) sep) xs)"
  by (induction xs arbitrary: x) auto

lemma render_args_join:
  "render_args is_str fmt True out kvs = out @ join '', '' (map (render_arg is_str fmt) kvs)"
proof (cases kvs)
  case Nil
  then show ?thesis by simp
next
  case (Cons av rest)
  obtain a v where av: "av = (a, v)" by (cases av)
  show ?thesis
    unfolding Cons av
    by (simp add: render_args_rest join_Cons Let_def render_arg_def comp_def)
qed

text \<open>
  Claim C9, amended. For every completed tool call one message is appended, in the order of
  the calls. Its role is \<open>system\<close> and its content is a line of three hyphens followed by
  the text \<open>name(arg1="value", arg2=123) returned:\<close>, the result on the next line and a final
  newline; the arguments are separated by a comma and a space, a \<open>str\<close> argument is put
  between double quotes and any other argument is put as the f-string formats it.
\<close>

theorem tool_results_to_prompts_messages:
  "tool_results_to_prompts is_str fmt prompt results
     = prompt @ map (result_message is_str fmt) results"
proof (induction results arbitrary: prompt)
  case Nil
  show ?case by simp
next
  case (Cons call rest)
  obtain nm as res where call: "call = (nm, as, res)" by (cases call)
  show ?case
    unfolding call
    by (simp add: Cons.IH render_args_join result_message_def call_text_def Let_def)
qed

text \<open>
  Claim C9 gives the content as exactly \<open>name(arg1="value", arg2=123) returned:\<close>, the result
  and a newline. The content the code builds starts with a line \<open>---\<close> before the name.
\<close>

theorem tool_result_shape_counterexample:
  \<open>tool_results_to_prompts isinstance_str format_scalar []
      [(''name'', [(''arg1'', SStr ''value''), (''arg2'', SInt 123)], SStr ''ok'')]
    = [\<lparr>role = ''system'',
         content = ''---\<newline>name(arg1="value", arg2=123) returned:\<newline>ok\<newline>''\<rparr>]
   \<and> tool_results_to_prompts isinstance_str format_scalar []
      [(''name'', [(''arg1'', SStr ''value''), (''arg2'', SInt 123)], SStr ''ok'')]
    \<noteq> [\<lparr>role = ''system'',
         content = ''name(arg1="value", arg2=123) returned:\<newline>ok\<newline>''\<rparr>]\<close>
  by code_simp

section \<open>The ReAct response parser: properties\<close>

lemma startswith_append: "startswith w s \<Longrightarrow> s = w @ drop (length w) s"
  by (metis append_take_drop_id startswith_def)

text \<open>
  A line that starts with one of the keywords is not blank: \<open>strip\<close> removes encodings of
  whitespace only, and the letter \<open>A\<close> occurs in none of them.
\<close>

lemma strip_prefixes_keeps:
  "c \<in> set s \<Longrightarrow> \<forall>w\<in>set ws. c \<notin> set w \<Longrightarrow> c \<in> set (strip_prefixes ws s)"
proof (induction ws s rule: strip_prefixes.induct)
  case (1 ws s)
  show ?case
  proof (cases "filter (\<lambda>w. w \<noteq> [] \<and> startswith w s) ws")
    case Nil
    then show ?thesis using 1(2) by (subst strip_prefixes.simps) simp
  next
    case (Cons w rest)
    then have w: "w \<in> set ws" "startswith w s"
      by (metis (mono_tags, lifting) filter_eq_Cons_iff list.set_intros(1) in_set_conv_decomp)+
    then have "s = w @ drop (length w) s" by (simp add: startswith_append)
    then have "set s = set w \<union> set (drop (length w) s)" by (metis set_append)
    with 1(2,3) w have "c \<in> set (drop (length w) s)" by auto
    then have "c \<in> set (strip_prefixes ws (drop (length w) s))"
      using 1(1)[OF Cons] 1(3) by simp
    then show ?thesis using Cons by (subst strip_prefixes.simps) simp
  qed
qed

lemma strip_nonblank:
  assumes "c \<in> set s" and "c \<notin> ws_bytes"
  shows "strip s \<noteq> []"
proof -
  have a: "\<forall>w\<in>set whitespace. c \<notin> set w" using assms(2) by (auto simp: ws_bytes_def)
  then have b: "\<forall>w\<in>set (map rev whitespace). c \<notin> set w" by auto
  have "c \<in> set (lstrip s)" unfolding lstrip_def by (rule strip_prefixes_keeps [OF assms(1) a])
  then have "c \<in> set (rev (lstrip s))" by simp
  then have "c \<in> set (strip_prefixes (map rev whitespace) (rev (lstrip s)))"
    by (rule strip_prefixes_keeps [OF _ b])
  then show ?thesis by (auto simp: strip_def rstrip_def)
qed

lemma A_not_ws: "CHR ''A'' \<notin> ws_bytes"
  by (simp add: ws_bytes_def whitespace_def)

lemma startswith_Cons: "startswith (c # p) s \<Longrightarrow> c \<in> set s"
  by (cases s) (auto simp: startswith_def)

lemma keyword_nonblank:
  "startswith ''Action:'' l \<or> startswith ''Action Input:'' l \<or> startswith ''Answer:'' l
     \<Longrightarrow> strip l \<noteq> []"
  by (metis strip_nonblank A_not_ws startswith_Cons)

lemma remainder_startswith:
  "startswith key l \<Longrightarrow> key \<noteq> [] \<Longrightarrow> remainder key l = Inr (drop (length key) l)"
  by (cases l) (auto simp: remainder_def startswith_def)

lemma startswith_iff: "startswith p s \<longleftrightarrow> (\<exists>r. s = p @ r)"
  by (metis append_eq_conv_conj startswith_def)

lemma keywords_disjoint:
  "startswith ''Action:'' l \<Longrightarrow> \<not> startswith ''Action Input:'' l"
  "startswith ''Action:'' l \<Longrightarrow> \<not> startswith ''Answer:'' l"
  "startswith ''Action Input:'' l \<Longrightarrow> \<not> startswith ''Answer:'' l"
  by (auto simp: startswith_iff)

lemma directive_Nil [simp]: "directive key [] = None"
  by (simp add: directive_def)

lemma directive_Cons:
  "directive key (l # ls) =
     (case directive key ls of
        Some a \<Rightarrow> Some a
      | None \<Rightarrow> if startswith key l then Some (drop (length key) l) else None)"
  by (simp add: directive_def split: list.splits)

lemma directive_None_iff: "directive key ls = None \<longleftrightarrow> (\<forall>l\<in>set ls. \<not> startswith key l)"
proof -
  have "directive key ls = None \<longleftrightarrow> filter (startswith key) ls = []"
    by (simp add: directive_def split: list.splits)
  then show ?thesis by (simp add: filter_empty_conv)
qed

lemma scanned_Nil [simp]: "scanned [] = []"
  by (simp add: scanned_def)

lemma scanned_Cons:
  "scanned (l # ls) = (if startswith ''Answer:'' l then [] else l # scanned ls)"
  by (simp add: scanned_def)

lemma answer_after_Nil [simp]: "answer_after [] = None"
  by (simp add: answer_after_def)

lemma answer_after_Cons:
  "answer_after (l # ls) =
     (if startswith ''Answer:'' l then Some (strip (drop (length ''Answer:'') l) @ ''\<newline>'' @ join ''\<newline>'' ls)
      else answer_after ls)"
  by (simp add: answer_after_def)

text \<open>The loop never raises, and it leaves the dictionary \<open>scan_result\<close> describes.\<close>

lemma scan_eq: "scan loads lines r = Inr (scan_result loads lines r)"
proof (induction lines arbitrary: r)
  case Nil
  show ?case by (simp add: scan_result_def)
next
  case (Cons l ls)
  consider (blank) "strip l = []"
    | (action) "strip l \<noteq> []" "startswith ''Action:'' l"
    | (input) "strip l \<noteq> []" "\<not> startswith ''Action:'' l" "startswith ''Action Input:'' l"
    | (answer) "strip l \<noteq> []" "\<not> startswith ''Action:'' l" "\<not> startswith ''Action Input:'' l"
        "startswith ''Answer:'' l"
    | (other) "strip l \<noteq> []" "\<not> startswith ''Action:'' l" "\<not> startswith ''Action Input:'' l"
        "\<not> startswith ''Answer:'' l"
    by blast
  then show ?case
  proof cases
    case blank
    then have no: "\<not> startswith ''Action:'' l" "\<not> startswith ''Action Input:'' l"
      "\<not> startswith ''Answer:'' l"
      using keyword_nonblank by blast+
    show ?thesis
      using blank no
      by (simp add: Cons.IH scan_result_def scanned_Cons directive_Cons answer_after_Cons
          split: option.splits)
  next
    case action
    then have no: "\<not> startswith ''Action Input:'' l" "\<not> startswith ''Answer:'' l"
      using keywords_disjoint by blast+
    show ?thesis
      using action no
      by (simp add: Cons.IH scan_result_def scanned_Cons directive_Cons answer_after_Cons
          remainder_startswith split: option.splits)
  next
    case input
    then have no: "\<not> startswith ''Answer:'' l"
      using keywords_disjoint by blast
    show ?thesis
      using input no
      by (simp add: Cons.IH scan_result_def scanned_Cons directive_Cons answer_after_Cons
          remainder_startswith split: option.splits)
  next
    case answer
    then show ?thesis
      by (simp add: scan_result_def scanned_Cons answer_after_Cons remainder_startswith)
  next
    case other
    then show ?thesis
      by (simp add: Cons.IH scan_result_def scanned_Cons directive_Cons answer_after_Cons
          split: option.splits)
  qed
qed

lemma split_char_hd: "\<exists>rest. split_char d s = takeWhile (\<lambda>c. c \<noteq> d) s # rest"
  by (induction s) (auto split: list.splits)

lemma startswith_takeWhile: "startswith p (takeWhile P s) \<Longrightarrow> startswith p s"
proof -
  assume "startswith p (takeWhile P s)"
  then obtain r where "takeWhile P s = p @ r" by (auto simp: startswith_iff)
  then have "s = p @ (r @ dropWhile P s)"
    by (metis append.assoc takeWhile_dropWhile_id)
  then show ?thesis unfolding startswith_iff by blast
qed

lemma parse_eq:
  assumes "split_char (CHR 0x0A) (strip text) = first # lines"
    and "startswith ''Thought:'' first"
  shows "parse loads text
           = finish (scan_result loads lines (init_results\<lparr>res_Thought := Some (strip (drop (length ''Thought:'') first))\<rparr>))"
  using assms by (simp add: parse_def remainder_startswith scan_eq)

lemma directive_Some:
  "directive key ls = Some a \<Longrightarrow> \<exists>l\<in>set ls. startswith key l \<and> a = drop (length key) l"
proof -
  assume a: "directive key ls = Some a"
  then obtain x xs where f: "filter (startswith key) ls = x # xs"
    and a': "a = drop (length key) (last (x # xs))"
    by (auto simp: directive_def split: list.splits)
  have "last (x # xs) \<in> set (filter (startswith key) ls)"
    unfolding f by (rule last_in_set) simp
  then show ?thesis using a' by auto
qed

lemma scanned_prefix:
  assumes "\<forall>l\<in>set pre. \<not> startswith ''Answer:'' l" and "startswith ''Answer:'' ans"
  shows "scanned (pre @ ans # post) = pre"
    and "answer_after (pre @ ans # post)
           = Some (strip (drop (length ''Answer:'') ans) @ ''\<newline>'' @ join ''\<newline>'' post)"
  using assms
  by (simp_all add: scanned_def answer_after_def takeWhile_append2 dropWhile_append2)

lemma validate_accepted:
  assumes "accepted (res_Action_Input r)" and "res_Thought r = Some t"
  shows "map_sum id Answer (validate r) = Inr (res_Answer r)"
    and "map_sum id Action (validate r) = Inr (res_Action r)"
  using assms by (cases "res_Action_Input r"; simp add: validate_def)+

text \<open>
  Claim C8, amended. When the text, with the whitespace at its two ends removed, does not
  start with \<open>Thought:\<close>, parsing fails with a \<open>FormatException\<close>, whatever follows; the
  empty text and the text of whitespace only are among these.
\<close>

theorem parse_without_thought_fails:
  assumes "\<not> startswith ''Thought:'' (strip text)"
  shows "parse loads text = Inl FormatException"
proof -
  obtain rest where s: "split_char (CHR 0x0A) (strip text)
      = takeWhile (\<lambda>c. c \<noteq> CHR 0x0A) (strip text) # rest"
    using split_char_hd by blast
  have "\<not> startswith ''Thought:'' (takeWhile (\<lambda>c. c \<noteq> CHR 0x0A) (strip text))"
    using assms startswith_takeWhile by blast
  then show ?thesis by (simp add: parse_def s)
qed

theorem parse_without_thought_fails_witness:
  "parse json_loads ''Answer: 42\<newline>Thought: late'' = Inl FormatException
   \<and> parse json_loads [] = Inl FormatException"
proof -
  have a: "\<not> startswith ''Thought:'' (strip ''Answer: 42\<newline>Thought: late'')" by code_simp
  have b: "\<not> startswith ''Thought:'' (strip [])" by code_simp
  show ?thesis
    using parse_without_thought_fails [OF a] parse_without_thought_fails [OF b] by simp
qed

text \<open>
  Claim C8 speaks of the first line that is not empty. \<open>strip\<close> removes the blanks before
  it: a text whose first line has a blank before \<open>Thought:\<close> does not start that line with
  \<open>Thought:\<close>, and is parsed.
\<close>

theorem leading_blank_counterexample:
  "first_nonempty_line '' Thought: x'' = Some '' Thought: x''
   \<and> \<not> startswith ''Thought:'' '' Thought: x''
   \<and> parse json_loads '' Thought: x''
       = Inr \<lparr>Thought = ''x'', Action = None, ActionInput = None, Answer = None\<rparr>"
  by code_simp

text \<open>
  Claim C2, amended. The text starts with a \<open>Thought:\<close> line, and among the lines the loop
  reads (those before the first \<open>Answer:\<close> line) one starts with \<open>Action:\<close> and none with
  \<open>Action Input:\<close>. Then parsing fails with a \<open>ValueError\<close> whose message is
  "Action specified without Action Input", also when an \<open>Answer:\<close> line follows.
\<close>

theorem action_without_input_fails:
  assumes "split_char (CHR 0x0A) (strip text) = first # lines"
    and "startswith ''Thought:'' first"
    and "\<exists>l\<in>set (scanned lines). startswith ''Action:'' l"
    and "\<forall>l\<in>set (scanned lines). \<not> startswith ''Action Input:'' l"
  shows "parse loads text = Inl (ValueError ''Action specified without Action Input'')"
proof -
  have a: "directive ''Action:'' (scanned lines) \<noteq> None"
    using assms(3) by (simp add: directive_None_iff)
  have b: "directive ''Action Input:'' (scanned lines) = None"
    using assms(4) by (simp add: directive_None_iff)
  show ?thesis
    using a b
    by (auto simp: parse_eq [OF assms(1,2)] finish_def scan_result_def init_results_def)
qed

theorem action_without_input_fails_witness:
  "parse json_loads ''Thought: t\<newline>Action: search\<newline>Answer: 42''
     = Inl (ValueError ''Action specified without Action Input'')"
proof -
  have a: "split_char (CHR 0x0A) (strip ''Thought: t\<newline>Action: search\<newline>Answer: 42'')
             = ''Thought: t'' # [''Action: search'', ''Answer: 42'']" by code_simp
  have b: "startswith ''Thought:'' ''Thought: t''" by code_simp
  have c: "\<exists>l\<in>set (scanned [''Action: search'', ''Answer: 42'']). startswith ''Action:'' l"
    by (simp add: scanned_def startswith_def)
  have d: "\<forall>l\<in>set (scanned [''Action: search'', ''Answer: 42'']). \<not> startswith ''Action Input:'' l"
    by (simp add: scanned_def startswith_def)
  show ?thesis by (rule action_without_input_fails [OF a b c d])
qed

text \<open>
  Claim C2 names the failure a \<open>FormatError\<close>. The exception raised is not the
  \<open>FormatException\<close> of the module but a \<open>ValueError\<close>.
\<close>

theorem action_without_input_counterexample:
  "parse json_loads ''Thought: t\<newline>Action: search''
     = Inl (ValueError ''Action specified without Action Input'')
   \<and> parse json_loads ''Thought: t\<newline>Action: search'' \<noteq> Inl FormatException"
  by code_simp

text \<open>
  Claim C5, amended. The text starts with a \<open>Thought:\<close> line; \<open>ans\<close> is its first line
  starting with \<open>Answer:\<close>, no line before it starts with \<open>Action:\<close>, and an
  \<open>Action Input:\<close> line before it, if any, carries a JSON object or \<open>null\<close>. Then the answer
  is what follows \<open>Answer:\<close> on that line with the whitespace at its ends removed, a
  newline, and the lines after it joined by newlines as they are (the whitespace at the end
  of the whole text is gone before). The lines after \<open>Answer:\<close> are not read as directives.
\<close>

theorem answer_is_rest_of_text:
  assumes "split_char (CHR 0x0A) (strip text) = first # pre @ ans # post"
    and "startswith ''Thought:'' first"
    and "startswith ''Answer:'' ans"
    and "\<forall>l\<in>set pre. \<not> startswith ''Answer:'' l \<and> \<not> startswith ''Action:'' l"
    and "\<forall>l\<in>set pre. startswith ''Action Input:'' l \<longrightarrow>
           accepted (action_input loads (strip (drop (length ''Action Input:'') l)))"
  shows "parse_for_result loads text
           = Inr (Some (strip (drop (length ''Answer:'') ans) @ ''\<newline>'' @ join ''\<newline>'' post))"
proof -
  let ?r = "scan_result loads (pre @ ans # post)
              (init_results\<lparr>res_Thought := Some (strip (drop (length ''Thought:'') first))\<rparr>)"
  have sc: "scanned (pre @ ans # post) = pre"
    and an: "answer_after (pre @ ans # post)
           = Some (strip (drop (length ''Answer:'') ans) @ ''\<newline>'' @ join ''\<newline>'' post)"
    using assms(3,4) by (simp_all add: scanned_prefix)
  have act: "directive ''Action:'' pre = None"
    using assms(4) by (simp add: directive_None_iff)
  have inp: "accepted (res_Action_Input ?r)"
  proof (cases "directive ''Action Input:'' pre")
    case None
    then show ?thesis by (simp add: scan_result_def sc init_results_def)
  next
    case (Some a)
    then obtain l where "l \<in> set pre" "startswith ''Action Input:'' l"
      "a = drop (length ''Action Input:'') l"
      using directive_Some by blast
    with assms(5) have "accepted (action_input loads (strip a))" by blast
    with Some show ?thesis by (simp add: scan_result_def sc)
  qed
  have ra: "res_Action ?r = None" by (simp add: scan_result_def sc act init_results_def)
  have rt: "res_Thought ?r = Some (strip (drop (length ''Thought:'') first))"
    by (simp add: scan_result_def)
  have rn: "res_Answer ?r
      = Some (strip (drop (length ''Answer:'') ans) @ ''\<newline>'' @ join ''\<newline>'' post)"
    by (simp add: scan_result_def an)
  have "parse loads text = validate ?r"
    using ra by (simp add: parse_eq [OF assms(1,2)] finish_def)
  then show ?thesis
    using validate_accepted(1) [OF inp rt] rn by (simp add: parse_for_result_def)
qed

theorem answer_is_rest_of_text_witness:
  \<open>parse_for_result json_loads
      ''Thought: done\<newline>Action Input: {"q": "cats"}\<newline>\<newline>Answer:  The capital is Paris \<newline>  Action: none\<newline>\<newline>Bye\<newline>''
     = Inr (Some ''The capital is Paris\<newline>  Action: none\<newline>\<newline>Bye'')\<close>
proof -
  let ?text = \<open>''Thought: done\<newline>Action Input: {"q": "cats"}\<newline>\<newline>Answer:  The capital is Paris \<newline>  Action: none\<newline>\<newline>Bye\<newline>''\<close>
  have a: \<open>split_char (CHR 0x0A) (strip ?text)
      = ''Thought: done'' # [''Action Input: {"q": "cats"}'', ''''] @ ''Answer:  The capital is Paris ''
          # [''  Action: none'', '''', ''Bye'']\<close> by code_simp
  have b: "startswith ''Thought:'' ''Thought: done''" by code_simp
  have c: "startswith ''Answer:'' ''Answer:  The capital is Paris ''" by code_simp
  have d: \<open>\<forall>l\<in>set [''Action Input: {"q": "cats"}'', ''''].
      \<not> startswith ''Answer:'' l \<and> \<not> startswith ''Action:'' l\<close>
    by (simp add: startswith_def)
  have j: \<open>accepted (action_input json_loads
      (strip (drop (length ''Action Input:'') ''Action Input: {"q": "cats"}'')))\<close> by code_simp
  have e: \<open>\<forall>l\<in>set [''Action Input: {"q": "cats"}'', ''''].
      startswith ''Action Input:'' l \<longrightarrow>
        accepted (action_input json_loads (strip (drop (length ''Action Input:'') l)))\<close>
    using j by (simp add: startswith_def)
  have f: "strip (drop (length ''Answer:'') ''Answer:  The capital is Paris '') = ''The capital is Paris''"
    by code_simp
  show ?thesis
    using answer_is_rest_of_text [OF a b c d e] f by simp
qed

text \<open>
  Claim C5 gives the answer of scenario B as \<open>The capital is Paris\<close> exactly. The answer
  the code returns ends with a newline: the newline before the lines that follow is added
  also when no line follows.
\<close>

theorem scenario_B_counterexample:
  "parse_for_result json_loads ''Thought: done\<newline>Answer: The capital is Paris''
     = Inr (Some ''The capital is Paris\<newline>'')
   \<and> parse_for_result json_loads ''Thought: done\<newline>Answer: The capital is Paris''
     \<noteq> Inr (Some ''The capital is Paris'')"
  by code_simp

text \<open>
  Claim C10, amended. The text starts with a \<open>Thought:\<close> line, and among the lines the loop
  reads (those before the first \<open>Answer:\<close> line) the last \<open>Action:\<close> line has nothing but
  whitespace after the keyword and the last \<open>Action Input:\<close> line carries a JSON object.
  Then \<open>parse_for_tool_calls\<close> returns the empty list.
\<close>

theorem empty_action_no_tool_call:
  assumes "split_char (CHR 0x0A) (strip text) = first # lines"
    and "startswith ''Thought:'' first"
    and "directive ''Action:'' (scanned lines) = Some a"
    and "strip a = []"
    and "directive ''Action Input:'' (scanned lines) = Some b"
    and "action_input loads (strip b) = PDict kvs"
  shows "parse_for_tool_calls loads text = Inr []"
  using assms(3-6)
  by (simp add: parse_for_tool_calls_def parse_eq [OF assms(1,2)] finish_def scan_result_def
      init_results_def validate_def)

theorem empty_action_no_tool_call_witness:
  \<open>parse_for_tool_calls json_loads
      ''Thought: t\<newline>Action: search\<newline>Action: \<newline>Action Input: {"q": "cats"}'' = Inr []\<close>
proof -
  let ?text = \<open>''Thought: t\<newline>Action: search\<newline>Action: \<newline>Action Input: {"q": "cats"}''\<close>
  let ?lines = \<open>[''Action: search'', ''Action: '', ''Action Input: {"q": "cats"}'']\<close>
  have a: \<open>split_char (CHR 0x0A) (strip ?text) = ''Thought: t'' # ?lines\<close> by code_simp
  have b: "startswith ''Thought:'' ''Thought: t''" by code_simp
  have c: \<open>directive ''Action:'' (scanned ?lines) = Some '' ''\<close> by code_simp
  have d: "strip '' '' = []" by code_simp
  have e: \<open>directive ''Action Input:'' (scanned ?lines) = Some '' {"q": "cats"}''\<close> by code_simp
  have f: \<open>action_input json_loads (strip '' {"q": "cats"}'') = PDict [(''q'', PStr ''cats'')]\<close>
    by code_simp
  show ?thesis by (rule empty_action_no_tool_call [OF a b c d e f])
qed

text \<open>
  Claim C10 asks only that the text carries an \<open>Action Input:\<close> line. The loop stops at
  the first \<open>Answer:\<close> line: an \<open>Action Input:\<close> line after it is not read, and the empty
  action is left without input, which is an error.
\<close>

theorem empty_action_counterexample:
  \<open>parse_for_tool_calls json_loads ''Thought: t\<newline>Action:\<newline>Answer: a\<newline>Action Input: {}''
     = Inl (ValueError ''Action specified without Action Input'')
   \<and> parse_for_tool_calls json_loads ''Thought: t\<newline>Action:\<newline>Answer: a\<newline>Action Input: {}''
     \<noteq> Inr []\<close>
  by code_simp

text \<open>
  Claim C1 says that parsing never raises on account of the value of \<open>Action Input:\<close>: a
  remainder that is not JSON is kept as the string, and JSON that is not an object is passed
  on as it is. The loop does keep them, but the pydantic model then rejects every value
  that is not a \<open>dict\<close>: the string \<open>cats\<close>, the number \<open>5\<close> and the JSON string \<open>"cats"\<close>
  all end in a \<open>ValidationError\<close>. Only a JSON object reaches the response.
\<close>

theorem action_input_not_object_raises:
  \<open>parse json_loads ''Thought: t\<newline>Action: search\<newline>Action Input: cats'' = Inl ValidationError
   \<and> parse json_loads ''Thought: t\<newline>Action: search\<newline>Action Input: 5'' = Inl ValidationError
   \<and> parse json_loads ''Thought: t\<newline>Action: search\<newline>Action Input: "cats"'' = Inl ValidationError
   \<and> parse json_loads ''Thought: t\<newline>Action: search\<newline>Action Input: {"q": "cats"}''
       = Inr \<lparr>Thought = ''t'', Action = Some ''search'',
              ActionInput = Some [(''q'', PStr ''cats'')], Answer = Some []\<rparr>\<close>
  by code_simp

section \<open>The registrar: properties\<close>

lemma dict_set_keys:
  "map fst (dict_set k v d) = (if k \<in> set (map fst d) then map fst d else map fst d @ [k])"
  by (induction d) force+

lemma dict_set_lookup: "map_of (dict_set k v d) k = Some v"
  by (induction d) auto

lemma register_get_tools_length:
  "length (get_tools (register t (register t w))) = length (get_tools (register t w))"
proof -
  have "length (map fst (dict_set k v (dict_set k v' d))) = length (map fst (dict_set k v' d))" for k v v' and d :: "(string \<times> nat) list"
    by (simp only: dict_set_keys) simp
  then show ?thesis by (simp add: get_tools_def register_def Let_def add_on_call_listener_def)
qed

lemma register_entry: "map_of (tools (register t w)) (tool_id (heap w t)) = Some t"
  by (simp add: register_def Let_def dict_set_lookup)

lemma register_adds_hook:
  "on_call_listeners (heap (register t w) t) = on_call_listeners (heap w t) @ [Registrar_on_tool_call]"
  by (simp add: register_def Let_def add_on_call_listener_def)

text \<open>
  Claim C3 says that registering a tool a second time changes nothing: the entry is kept,
  \<open>get_tools\<close> is as long as before, and an invocation is not reported twice. The length
  holds. But \<open>register\<close> does not return when it finds the identity: it assigns the entry
  again and adds its hook to the tool again, so a tool registered twice reports each
  invocation twice to every listener of the registrar.
\<close>

theorem register_twice_notifies_twice:
  "get_tools (register 7 (register 7 (add_tool_call_listener ''log'' (enable start)))) = [7]
   \<and> tasks (notify_call 7 ''ctx'' (register 7 (add_tool_call_listener ''log'' (enable start))))
       = [(''log'', 7, ''ctx'')]
   \<and> tasks (notify_call 7 ''ctx''
        (register 7 (register 7 (add_tool_call_listener ''log'' (enable start)))))
       = [(''log'', 7, ''ctx''), (''log'', 7, ''ctx'')]"
  by (simp add: get_tools_def register_def notify_call_def run_callback_def on_tool_call_def
      add_tool_call_listener_def enable_def start_def new_tool_def add_on_call_listener_def Let_def)

end
